theory Spec2Isabelle
  imports Complex_Main
begin

section \<open>The SignalFx handler of fullerite (handler/signalfx.go)\<close>

text \<open>
  The handler drains a channel of metrics, converts each one to a protobuf DataPoint,
  buffers the DataPoints and posts the buffer to SignalFx when the emission interval
  has passed or the buffer is full. Every interval it also appends three DataPoints
  about itself.

  Conventions of the embedding.
  \<^item> A protobuf pointer field (\<open>*string\<close>, \<open>*float64\<close>, \<open>*MetricType\<close>) is an
    \<open>option\<close>: \<open>None\<close> is the nil pointer, an unset field.
  \<^item> A \<open>time.Time\<close> is a reading of the clock in nanoseconds, an \<open>int\<close>; a
    \<open>time.Duration\<close> is a difference of two readings. \<open>float64\<close> values are read
    as real numbers: \<open>Duration.Seconds\<close> is the exact quotient by \<open>10^9\<close>, and
    rounding is not modelled.
  \<^item> The logger and the HTTP client are effects: every function returns the list of
    the events it caused, in order.
  \<^item> What the outside world supplies is an argument: the clock readings and the
    answer of the network come with each loop iteration, the protobuf serializer and
    the functions of packages that are not part of this file come in a record.
\<close>

subsection \<open>Data\<close>

text \<open>
  \<open>metric.Metric\<close>. The switch of \<open>convertToProto\<close> names three metric types and has
  no default case; \<open>OtherType\<close> stands for every value of \<open>MetricType\<close> that is none
  of the three.
\<close>

datatype metric_type = Gauge | Counter | CumulativeCounter | OtherType string

record Metric =
  m_Name :: string
  m_Value :: real
  m_MetricType :: metric_type

text \<open>The protobuf messages: \<open>MetricType\<close>, \<open>Datum\<close>, \<open>Dimension\<close>, \<open>DataPoint\<close>.\<close>

datatype MetricType = MetricType_GAUGE | MetricType_COUNTER | MetricType_CUMULATIVE_COUNTER

record Datum =
  DoubleValue :: "real option"

record Dimension =
  dim_Key :: "string option"
  dim_Value :: "string option"

record DataPoint =
  dp_Metric :: "string option"
  dp_Value :: "Datum option"
  dp_Source :: "string option"
  dp_MetricType :: "MetricType option"
  dp_Dimensions :: "Dimension list"

text \<open>
  Modelled from the spec: the struct \<open>BaseHandler\<close>, embedded in \<open>SignalFx\<close>, is
  declared outside this file. The record has the two fields of \<open>SignalFx\<close> and the
  fields of \<open>BaseHandler\<close> that this file reads or writes: \<open>interval\<close>,
  \<open>maxBufferSize\<close>, \<open>timeout\<close> and \<open>emissionTimes\<close> are the fields the file names;
  \<open>prefix\<close> and \<open>defaultDimensions\<close> are what \<open>Prefix()\<close> and
  \<open>DefaultDimensions()\<close> return; \<open>metricsSent\<close> and \<open>metricsDropped\<close> are the sent
  and dropped counters of the spec's EmitterState.
\<close>

record SignalFx =
  endpoint :: string
  authToken :: string
  interval :: int
  maxBufferSize :: int
  timeout :: int
  prefix :: string
  defaultDimensions :: "(string \<times> string) list"
  emissionTimes :: "real list"
  metricsSent :: int
  metricsDropped :: int

text \<open>\<open>http.Request\<close> and \<open>http.Response\<close>, as far as the handler touches them.\<close>

record Request =
  req_Method :: string
  req_URL :: string
  req_Body :: string
  req_Header :: "(string \<times> string) list"

record Response =
  rsp_Status :: string
  rsp_StatusCode :: int
  rsp_Body :: string

text \<open>The log lines of the file, and the events a function causes.\<close>

datatype level = Debug | Info | Warn | Error

datatype message =
    SignalFx_datapoint DataPoint
  | POST_took real
  | Starting_to_emit nat
  | Skipping_empty_payload
  | Skipping_missing_config "DataPoint list"
  | Failed_to_serialize "DataPoint list"
  | Failed_to_create_request string
  | Failed_to_complete_POST string
  | Failed_to_post string string string "DataPoint list"
  | Successfully_sent nat

datatype event = Log level message | Client_Do Request

text \<open>
  What the file calls and does not define.
  \<^item> \<open>makeEmissionTimeMetric\<close>, \<open>makeMetricsSentMetric\<close>, \<open>makeMetricsDroppedMetric\<close>
    (methods of \<open>BaseHandler\<close>) build a metric from the handler;
  \<^item> \<open>GetDimensions\<close> (package metric) merges a metric's dimensions with the default
    ones; the list is the order in which \<open>range\<close> visits the resulting map;
  \<^item> \<open>proto_Marshal\<close> serializes a payload, \<open>None\<close> when it returns an error;
  \<^item> \<open>http_NewRequest\<close> builds a request, \<open>None\<close> when it returns an error.
\<close>

record deps =
  makeEmissionTimeMetric :: "SignalFx \<Rightarrow> Metric"
  makeMetricsSentMetric :: "SignalFx \<Rightarrow> Metric"
  makeMetricsDroppedMetric :: "SignalFx \<Rightarrow> Metric"
  GetDimensions :: "Metric \<Rightarrow> (string \<times> string) list \<Rightarrow> (string \<times> string) list"
  proto_Marshal :: "DataPoint list \<Rightarrow> string option"
  http_NewRequest :: "string \<Rightarrow> string \<Rightarrow> string \<Rightarrow> Request option"

text \<open>
  One iteration of the loop of \<open>Run\<close> receives a metric from the channel, reads the
  clock up to five times (lines 68, 69, 74, 94 and 96) and may call the network once:
  \<open>client_Do\<close> is what \<open>client.Do\<close> answers in this iteration to a request sent with
  the given dial timeout, \<open>Inl\<close> its error.
\<close>

record tick =
  incomingMetric :: Metric
  now68 :: int
  now69 :: int
  now74 :: int
  now94 :: int
  now96 :: int
  client_Do :: "int \<Rightarrow> Request \<Rightarrow> string + Response"

text \<open>The handler together with the local variables of \<open>Run\<close>.\<close>

record run_state =
  handler :: SignalFx
  datapoints :: "DataPoint list"
  lastEmission :: int
  lastHandlerMetricsEmission :: int

subsection \<open>convertToProto\<close>

definition convertToProto :: "deps \<Rightarrow> SignalFx \<Rightarrow> Metric \<Rightarrow> DataPoint" where
  "convertToProto d s incoming =
     (let outname = prefix s @ m_Name incoming;
          val = m_Value incoming
      in \<lparr> dp_Metric = Some outname,
           dp_Value = Some \<lparr> DoubleValue = Some val \<rparr>,
           dp_Source = Some ''fullerite'',
           dp_MetricType =
             (case m_MetricType incoming of
                Gauge \<Rightarrow> Some MetricType_GAUGE
              | Counter \<Rightarrow> Some MetricType_COUNTER
              | CumulativeCounter \<Rightarrow> Some MetricType_CUMULATIVE_COUNTER
              | OtherType _ \<Rightarrow> None),
           dp_Dimensions =
             map (\<lambda>(k, v). \<lparr> dim_Key = Some k, dim_Value = Some v \<rparr>)
               (GetDimensions d incoming (defaultDimensions s)) \<rparr>)"

subsection \<open>emitMetrics\<close>

text \<open>
  \<open>Header.Set\<close> replaces the values of a key. The key is kept as written here;
  \<open>net/http\<close> stores it in canonical form (\<open>X-Sf-Token\<close>).
\<close>

definition Header_Set :: "string \<Rightarrow> string \<Rightarrow> Request \<Rightarrow> Request" where
  "Header_Set k v req =
     req\<lparr> req_Header := (k, v) # filter (\<lambda>kv. fst kv \<noteq> k) (req_Header req) \<rparr>"

text \<open>
  \<open>emitMetrics\<close> returns the handler as it leaves it and the events it caused. The
  response body is read (\<open>ioutil.ReadAll\<close>) only on the branch that logs it.
\<close>

definition emitMetrics ::
  "deps \<Rightarrow> (int \<Rightarrow> Request \<Rightarrow> string + Response) \<Rightarrow> SignalFx \<Rightarrow> DataPoint list
     \<Rightarrow> SignalFx \<times> event list" where
  "emitMetrics d do s dps =
     (let started = [Log Info (Starting_to_emit (length dps))] in
      if length dps = 0 then (s, started @ [Log Warn Skipping_empty_payload])
      else if authToken s = [] \<or> endpoint s = []
      then (s, started @ [Log Warn (Skipping_missing_config dps)])
      else case proto_Marshal d dps of
        None \<Rightarrow> (s, started @ [Log Error (Failed_to_serialize dps)])
      | Some serialized \<Rightarrow>
         (case http_NewRequest d ''POST'' (endpoint s) serialized of
            None \<Rightarrow> (s, started @ [Log Error (Failed_to_create_request (endpoint s))])
          | Some req0 \<Rightarrow>
             (let req = Header_Set ''Content-Type'' ''application/x-protobuf''
                          (Header_Set ''X-SF-TOKEN'' (authToken s) req0)
              in case do (timeout s) req of
                Inl err \<Rightarrow> (s, started @ [Client_Do req, Log Error (Failed_to_complete_POST err)])
              | Inr rsp \<Rightarrow>
                 if rsp_Status rsp \<noteq> ''200 OK''
                 then (s, started @ [Client_Do req,
                        Log Error (Failed_to_post (endpoint s) (rsp_Status rsp) (rsp_Body rsp) dps)])
                 else (s, started @ [Client_Do req, Log Info (Successfully_sent (length dps))]))))"

subsection \<open>Run\<close>

definition Seconds :: "int \<Rightarrow> real" where
  "Seconds dur = real_of_int dur / 1000000000"

text \<open>The three tests of lines 68 to 70, on the buffer after the append of line 66.\<close>

definition emitIntervalPassed :: "run_state \<Rightarrow> tick \<Rightarrow> bool" where
  "emitIntervalPassed st tk =
     (Seconds (now68 tk - lastEmission st) \<ge> real_of_int (interval (handler st)))"

definition emitHandlerIntervalPassed :: "run_state \<Rightarrow> tick \<Rightarrow> bool" where
  "emitHandlerIntervalPassed st tk =
     (Seconds (now69 tk - lastHandlerMetricsEmission st) \<ge> real_of_int (interval (handler st)))"

definition bufferSizeLimitReached :: "SignalFx \<Rightarrow> DataPoint list \<Rightarrow> bool" where
  "bufferSizeLimitReached s dps = (int (length dps) \<ge> maxBufferSize s)"

text \<open>
  Modelled from the spec: \<open>resetEmissionTimes\<close>, \<open>resetMetricsSent\<close> and
  \<open>resetMetricsDropped\<close> are methods of \<open>BaseHandler\<close>, outside this file. The spec:
  the duration list is cleared, and each counter is reset to zero.
\<close>

definition resetEmissionTimes :: "SignalFx \<Rightarrow> SignalFx" where
  "resetEmissionTimes s = s\<lparr> emissionTimes := [] \<rparr>"

definition resetMetricsSent :: "SignalFx \<Rightarrow> SignalFx" where
  "resetMetricsSent s = s\<lparr> metricsSent := 0 \<rparr>"

definition resetMetricsDropped :: "SignalFx \<Rightarrow> SignalFx" where
  "resetMetricsDropped s = s\<lparr> metricsDropped := 0 \<rparr>"

text \<open>Lines 74 to 89: the body of \<open>if emitHandlerIntervalPassed\<close>.\<close>

definition reportHandlerMetrics :: "deps \<Rightarrow> tick \<Rightarrow> run_state \<Rightarrow> run_state" where
  "reportHandlerMetrics d tk st =
     (let s0 = handler st;
          m = makeEmissionTimeMetric d s0;
          s1 = resetEmissionTimes s0;
          dps1 = datapoints st @ [convertToProto d s1 m];
          sent = makeMetricsSentMetric d s1;
          s2 = resetMetricsSent s1;
          dps2 = dps1 @ [convertToProto d s2 sent];
          dropped = makeMetricsDroppedMetric d s2;
          s3 = resetMetricsDropped s2;
          dps3 = dps2 @ [convertToProto d s3 dropped]
      in st\<lparr> handler := s3, datapoints := dps3, lastHandlerMetricsEmission := now74 tk \<rparr>)"

text \<open>Lines 94 to 103: the body of \<open>if doEmit\<close>.\<close>

definition emitAndReset :: "deps \<Rightarrow> tick \<Rightarrow> run_state \<Rightarrow> run_state \<times> event list" where
  "emitAndReset d tk st =
     (let beforeEmission = now94 tk;
          (s1, evs) = emitMetrics d (client_Do tk) (handler st) (datapoints st);
          last = now96 tk;
          emissionTimeInSeconds = Seconds (last - beforeEmission)
      in (st\<lparr> handler := s1\<lparr> emissionTimes := emissionTimes s1 @ [emissionTimeInSeconds] \<rparr>,
              datapoints := [],
              lastEmission := last \<rparr>,
          evs @ [Log Info (POST_took emissionTimeInSeconds)]))"

text \<open>Lines 64 to 66: the incoming metric is converted and appended to the buffer.\<close>

definition appendDatapoint :: "deps \<Rightarrow> tick \<Rightarrow> run_state \<Rightarrow> run_state" where
  "appendDatapoint d tk st =
     st\<lparr> datapoints := datapoints st @ [convertToProto d (handler st) (incomingMetric tk)] \<rparr>"

text \<open>Line 71, on the state after the append.\<close>

definition doEmit :: "run_state \<Rightarrow> tick \<Rightarrow> bool" where
  "doEmit st tk = (emitIntervalPassed st tk \<or> bufferSizeLimitReached (handler st) (datapoints st))"

text \<open>Lines 64 to 104: one iteration of the loop.\<close>

definition Run_body :: "deps \<Rightarrow> tick \<Rightarrow> run_state \<Rightarrow> run_state \<times> event list" where
  "Run_body d tk st =
     (let datapoint = convertToProto d (handler st) (incomingMetric tk);
          st1 = appendDatapoint d tk st;
          emit = doEmit st1 tk;
          st2 = (if emitHandlerIntervalPassed st1 tk then reportHandlerMetrics d tk st1 else st1);
          (st3, evs) = (if emit then emitAndReset d tk st2 else (st2, []))
      in (st3, Log Debug (SignalFx_datapoint datapoint) # evs))"

text \<open>
  The loop over the metrics that the channel delivers until it is closed, and \<open>Run\<close>:
  \<open>start\<close> is the clock reading of line 61. \<open>make\<close> with a negative capacity panics,
  so \<open>Run\<close> does with a negative \<open>maxBufferSize\<close>. (A capacity too large to allocate
  panics as well; the model lets such a run go on, so what is proved of every run that
  returns covers the runs of the code.)
\<close>

fun Run_loop :: "deps \<Rightarrow> run_state \<Rightarrow> tick list \<Rightarrow> run_state \<times> event list" where
  "Run_loop d st [] = (st, [])"
| "Run_loop d st (tk # tks) =
     (let (st1, evs1) = Run_body d tk st;
          (st2, evs2) = Run_loop d st1 tks
      in (st2, evs1 @ evs2))"

datatype panic = Makeslice_cap_out_of_range

definition init_state :: "SignalFx \<Rightarrow> int \<Rightarrow> run_state" where
  "init_state s start =
     \<lparr> handler = s, datapoints = [], lastEmission = start, lastHandlerMetricsEmission = start \<rparr>"

definition Run :: "deps \<Rightarrow> SignalFx \<Rightarrow> int \<Rightarrow> tick list \<Rightarrow> panic + run_state \<times> event list" where
  "Run d s start tks =
     (if maxBufferSize s < 0 then Inl Makeslice_cap_out_of_range
      else Inr (Run_loop d (init_state s start) tks))"

subsection \<open>What a run shows\<close>

text \<open>
  \<open>emitMetrics\<close> starts with the log line \<open>Starting to emit n datapoints\<close>, and no other
  line of the file logs it: the sizes of the batches handed to \<open>emitMetrics\<close>, in order,
  are read off the events. \<open>requests\<close> are the HTTP requests issued, \<open>error_logs\<close> the
  lines logged at level Error.
\<close>

primrec flush_sizes :: "event list \<Rightarrow> nat list" where
  "flush_sizes [] = []"
| "flush_sizes (e # evs) =
     (case e of Log Info (Starting_to_emit n) \<Rightarrow> n # flush_sizes evs | _ \<Rightarrow> flush_sizes evs)"

primrec requests :: "event list \<Rightarrow> Request list" where
  "requests [] = []"
| "requests (e # evs) = (case e of Client_Do req \<Rightarrow> req # requests evs | _ \<Rightarrow> requests evs)"

primrec error_logs :: "event list \<Rightarrow> message list" where
  "error_logs [] = []"
| "error_logs (e # evs) = (case e of Log Error m \<Rightarrow> m # error_logs evs | _ \<Rightarrow> error_logs evs)"

text \<open>The state at line 91 of an iteration: after the append and the self-report block.\<close>

definition afterReport :: "deps \<Rightarrow> tick \<Rightarrow> run_state \<Rightarrow> run_state" where
  "afterReport d tk st =
     (let st1 = appendDatapoint d tk st
      in if emitHandlerIntervalPassed st1 tk then reportHandlerMetrics d tk st1 else st1)"

subsection \<open>A concrete handler and concrete runs\<close>

definition ex_deps :: deps where
  "ex_deps =
     \<lparr> makeEmissionTimeMetric =
         (\<lambda>s. \<lparr> m_Name = ''HandlerEmitTiming'', m_Value = sum_list (emissionTimes s),
                 m_MetricType = Gauge \<rparr>),
       makeMetricsSentMetric =
         (\<lambda>s. \<lparr> m_Name = ''MetricsSent'', m_Value = real_of_int (metricsSent s),
                 m_MetricType = Counter \<rparr>),
       makeMetricsDroppedMetric =
         (\<lambda>s. \<lparr> m_Name = ''MetricsDropped'', m_Value = real_of_int (metricsDropped s),
                 m_MetricType = Counter \<rparr>),
       GetDimensions = (\<lambda>m defaults. defaults),
       proto_Marshal = (\<lambda>dps. Some ''payload''),
       http_NewRequest =
         (\<lambda>method url body.
            Some \<lparr> req_Method = method, req_URL = url, req_Body = body, req_Header = [] \<rparr>) \<rparr>"

definition ex_handler :: "int \<Rightarrow> int \<Rightarrow> SignalFx" where
  "ex_handler ival cap =
     \<lparr> endpoint = ''https://ingest.signalfx.com/v2/datapoint'', authToken = ''secret'',
       interval = ival, maxBufferSize = cap, timeout = 2000000000, prefix = ''test.'',
       defaultDimensions = [], emissionTimes = [], metricsSent = 0, metricsDropped = 0 \<rparr>"

definition ex_metric :: Metric where
  "ex_metric = \<lparr> m_Name = ''cpu'', m_Value = 1, m_MetricType = Gauge \<rparr>"

definition ex_datapoint :: DataPoint where
  "ex_datapoint = convertToProto ex_deps (ex_handler 10 2) ex_metric"

text \<open>A server that answers every request with the given status line, code and body.\<close>

definition answer :: "string \<Rightarrow> int \<Rightarrow> string \<Rightarrow> int \<Rightarrow> Request \<Rightarrow> string + Response" where
  "answer status code body =
     (\<lambda>t req. Inr \<lparr> rsp_Status = status, rsp_StatusCode = code, rsp_Body = body \<rparr>)"

definition refuse :: "int \<Rightarrow> Request \<Rightarrow> string + Response" where
  "refuse = (\<lambda>t req. Inl ''connection refused'')"

text \<open>
  A metric received at clock reading \<open>t\<close> (nanoseconds), in an iteration whose POST, if
  there is one, takes \<open>dur\<close> and is answered with \<open>200 OK\<close>.
\<close>

definition ex_tick :: "int \<Rightarrow> int \<Rightarrow> tick" where
  "ex_tick t dur =
     \<lparr> incomingMetric = ex_metric, now68 = t, now69 = t, now74 = t, now94 = t,
       now96 = t + dur, client_Do = answer ''200 OK'' 200 ''OK'' \<rparr>"

text \<open>
  A run with interval 10 s and \<open>maxBufferSize\<close> 2, started at 0. Metrics arrive at 10 s,
  20.2 s and 31 s; the POST of the first iteration takes 0.5 s, so the flush anchor
  (10.5 s) is later than the self-report anchor (10 s). At 20.2 s the self-report is due
  and the flush is not.
\<close>

definition ex_ticks :: "tick list" where
  "ex_ticks = [ex_tick 10000000000 500000000, ex_tick 20200000000 0, ex_tick 31000000000 500000000]"

lemmas ex_defs = ex_deps_def ex_handler_def ex_metric_def ex_datapoint_def answer_def refuse_def
  ex_tick_def ex_ticks_def

lemmas run_defs = Run_def init_state_def Run_body_def appendDatapoint_def doEmit_def
  emitIntervalPassed_def emitHandlerIntervalPassed_def bufferSizeLimitReached_def
  reportHandlerMetrics_def emitAndReset_def emitMetrics_def convertToProto_def Header_Set_def
  resetEmissionTimes_def resetMetricsSent_def resetMetricsDropped_def Seconds_def Let_def

section \<open>Properties\<close>

subsection \<open>Auxiliary facts\<close>

lemma flush_sizes_append: "flush_sizes (xs @ ys) = flush_sizes xs @ flush_sizes ys"
  by (induction xs) (auto split: event.splits level.splits message.splits)

lemma requests_append: "requests (xs @ ys) = requests xs @ requests ys"
  by (induction xs) (auto split: event.splits)

lemma Seconds_mono: "a \<le> b \<Longrightarrow> Seconds a \<le> Seconds b"
  by (simp add: Seconds_def divide_right_mono)

lemma emitMetrics_fst: "fst (emitMetrics d do s dps) = s"
  by (simp add: emitMetrics_def Let_def split: option.splits sum.splits)

lemma emitMetrics_flush_sizes: "flush_sizes (snd (emitMetrics d do s dps)) = [length dps]"
  by (simp add: emitMetrics_def Let_def split: option.splits sum.splits)

lemma emitMetrics_requests_skip:
  "dps = [] \<or> authToken s = [] \<or> endpoint s = [] \<Longrightarrow>
     requests (snd (emitMetrics d do s dps)) = [] \<and> error_logs (snd (emitMetrics d do s dps)) = []"
  by (auto simp: emitMetrics_def Let_def)

text \<open>The one path of \<open>emitMetrics\<close> that logs a success.\<close>

lemma emitMetrics_success_iff:
  "Log Info (Successfully_sent n) \<in> set (snd (emitMetrics d do s dps)) \<longleftrightarrow>
     n = length dps \<and> dps \<noteq> [] \<and> authToken s \<noteq> [] \<and> endpoint s \<noteq> [] \<and>
     (\<exists>serialized req0 rsp.
        proto_Marshal d dps = Some serialized \<and>
        http_NewRequest d ''POST'' (endpoint s) serialized = Some req0 \<and>
        do (timeout s)
          (Header_Set ''Content-Type'' ''application/x-protobuf''
            (Header_Set ''X-SF-TOKEN'' (authToken s) req0)) = Inr rsp \<and>
        rsp_Status rsp = ''200 OK'')"
  by (auto simp: emitMetrics_def Let_def split: option.splits sum.splits)

lemma appendDatapoint_simps:
  "handler (appendDatapoint d tk st) = handler st"
  "lastEmission (appendDatapoint d tk st) = lastEmission st"
  "lastHandlerMetricsEmission (appendDatapoint d tk st) = lastHandlerMetricsEmission st"
  "length (datapoints (appendDatapoint d tk st)) = Suc (length (datapoints st))"
  by (simp_all add: appendDatapoint_def)

lemma tests_appendDatapoint:
  "emitIntervalPassed (appendDatapoint d tk st) tk = emitIntervalPassed st tk"
  "emitHandlerIntervalPassed (appendDatapoint d tk st) tk = emitHandlerIntervalPassed st tk"
  by (simp_all add: emitIntervalPassed_def emitHandlerIntervalPassed_def appendDatapoint_simps)

lemma reportHandlerMetrics_simps:
  "length (datapoints (reportHandlerMetrics d tk st)) = length (datapoints st) + 3"
  "lastEmission (reportHandlerMetrics d tk st) = lastEmission st"
  "lastHandlerMetricsEmission (reportHandlerMetrics d tk st) = now74 tk"
  "interval (handler (reportHandlerMetrics d tk st)) = interval (handler st)"
  "maxBufferSize (handler (reportHandlerMetrics d tk st)) = maxBufferSize (handler st)"
  "authToken (handler (reportHandlerMetrics d tk st)) = authToken (handler st)"
  "endpoint (handler (reportHandlerMetrics d tk st)) = endpoint (handler st)"
  "emissionTimes (handler (reportHandlerMetrics d tk st)) = []"
  "metricsSent (handler (reportHandlerMetrics d tk st)) = 0"
  "metricsDropped (handler (reportHandlerMetrics d tk st)) = 0"
  by (simp_all add: reportHandlerMetrics_def Let_def resetEmissionTimes_def
      resetMetricsSent_def resetMetricsDropped_def)

lemma afterReport_simps:
  "length (datapoints (afterReport d tk st)) =
     length (datapoints st) + (if emitHandlerIntervalPassed st tk then 4 else 1)"
  "lastEmission (afterReport d tk st) = lastEmission st"
  "lastHandlerMetricsEmission (afterReport d tk st) =
     (if emitHandlerIntervalPassed st tk then now74 tk else lastHandlerMetricsEmission st)"
  "interval (handler (afterReport d tk st)) = interval (handler st)"
  "maxBufferSize (handler (afterReport d tk st)) = maxBufferSize (handler st)"
  "authToken (handler (afterReport d tk st)) = authToken (handler st)"
  "endpoint (handler (afterReport d tk st)) = endpoint (handler st)"
  by (simp_all add: afterReport_def Let_def tests_appendDatapoint reportHandlerMetrics_simps
      appendDatapoint_simps)

lemma emitAndReset_fst:
  "fst (emitAndReset d tk st) =
     st\<lparr> handler := (handler st)\<lparr> emissionTimes :=
                        emissionTimes (handler st) @ [Seconds (now96 tk - now94 tk)] \<rparr>,
         datapoints := [], lastEmission := now96 tk \<rparr>"
  using emitMetrics_fst [of d "client_Do tk" "handler st" "datapoints st"]
  by (cases "emitMetrics d (client_Do tk) (handler st) (datapoints st)")
     (simp add: emitAndReset_def Let_def)

lemma emitAndReset_flush_sizes:
  "flush_sizes (snd (emitAndReset d tk st)) = [length (datapoints st)]"
  using emitMetrics_flush_sizes [of d "client_Do tk" "handler st" "datapoints st"]
  by (cases "emitMetrics d (client_Do tk) (handler st) (datapoints st)")
     (simp add: emitAndReset_def Let_def flush_sizes_append)

lemma emitAndReset_requests:
  "requests (snd (emitAndReset d tk st)) =
     requests (snd (emitMetrics d (client_Do tk) (handler st) (datapoints st)))"
  by (cases "emitMetrics d (client_Do tk) (handler st) (datapoints st)")
     (simp add: emitAndReset_def Let_def requests_append)

text \<open>One iteration, with the pairs of the definition taken apart.\<close>

lemma Run_body_eq:
  "Run_body d tk st =
     (if doEmit (appendDatapoint d tk st) tk
      then (fst (emitAndReset d tk (afterReport d tk st)),
            Log Debug (SignalFx_datapoint (convertToProto d (handler st) (incomingMetric tk)))
              # snd (emitAndReset d tk (afterReport d tk st)))
      else (afterReport d tk st,
            [Log Debug (SignalFx_datapoint (convertToProto d (handler st) (incomingMetric tk)))]))"
  by (simp add: Run_body_def afterReport_def Let_def case_prod_beta)

lemma Run_body_fst:
  "fst (Run_body d tk st) =
     (if doEmit (appendDatapoint d tk st) tk
      then fst (emitAndReset d tk (afterReport d tk st)) else afterReport d tk st)"
  by (simp add: Run_body_eq)

lemma Run_body_flush_sizes:
  "flush_sizes (snd (Run_body d tk st)) =
     (if doEmit (appendDatapoint d tk st) tk
      then [length (datapoints (afterReport d tk st))] else [])"
  by (simp add: Run_body_eq emitAndReset_flush_sizes)

lemma doEmit_appendDatapoint:
  "doEmit (appendDatapoint d tk st) tk =
     (real_of_int (interval (handler st)) \<le> Seconds (now68 tk - lastEmission st) \<or>
      maxBufferSize (handler st) \<le> int (length (datapoints st)) + 1)"
  by (auto simp: doEmit_def emitIntervalPassed_def bufferSizeLimitReached_def appendDatapoint_simps)

lemma Run_body_simps:
  "interval (handler (fst (Run_body d tk st))) = interval (handler st)"
  "maxBufferSize (handler (fst (Run_body d tk st))) = maxBufferSize (handler st)"
  "authToken (handler (fst (Run_body d tk st))) = authToken (handler st)"
  "endpoint (handler (fst (Run_body d tk st))) = endpoint (handler st)"
  "lastHandlerMetricsEmission (fst (Run_body d tk st)) =
     (if emitHandlerIntervalPassed st tk then now74 tk else lastHandlerMetricsEmission st)"
  "lastEmission (fst (Run_body d tk st)) =
     (if doEmit (appendDatapoint d tk st) tk then now96 tk else lastEmission st)"
  "length (datapoints (fst (Run_body d tk st))) =
     (if doEmit (appendDatapoint d tk st) tk then 0
      else length (datapoints st) + (if emitHandlerIntervalPassed st tk then 4 else 1))"
  by (simp_all add: Run_body_fst emitAndReset_fst afterReport_simps)

lemma Run_body_requests_skip:
  assumes "authToken (handler st) = [] \<or> endpoint (handler st) = []"
  shows "requests (snd (Run_body d tk st)) = []"
proof -
  have "authToken (handler (afterReport d tk st)) = [] \<or>
        endpoint (handler (afterReport d tk st)) = []"
    using assms by (simp add: afterReport_simps)
  then show ?thesis
    by (simp add: Run_body_eq emitAndReset_requests emitMetrics_requests_skip)
qed

text \<open>The loop.\<close>

lemma Run_loop_Cons:
  "Run_loop d st (tk # tks) =
     (fst (Run_loop d (fst (Run_body d tk st)) tks),
      snd (Run_body d tk st) @ snd (Run_loop d (fst (Run_body d tk st)) tks))"
  by (simp add: case_prod_beta)

lemma Run_loop_append:
  "fst (Run_loop d st (xs @ ys)) = fst (Run_loop d (fst (Run_loop d st xs)) ys)"
  by (induction xs arbitrary: st) (simp_all add: Run_loop_Cons del: Run_loop.simps(2))

lemma Run_loop_simps:
  "interval (handler (fst (Run_loop d st tks))) = interval (handler st)"
  "maxBufferSize (handler (fst (Run_loop d st tks))) = maxBufferSize (handler st)"
  "authToken (handler (fst (Run_loop d st tks))) = authToken (handler st)"
  "endpoint (handler (fst (Run_loop d st tks))) = endpoint (handler st)"
  by (induction tks arbitrary: st)
     (simp_all add: Run_loop_Cons Run_body_simps del: Run_loop.simps(2))

lemma Run_loop_requests_skip:
  "authToken (handler st) = [] \<or> endpoint (handler st) = [] \<Longrightarrow>
     requests (snd (Run_loop d st tks)) = []"
proof (induction tks arbitrary: st)
  case Nil
  then show ?case by simp
next
  case (Cons tk tks)
  have "authToken (handler (fst (Run_body d tk st))) = [] \<or>
        endpoint (handler (fst (Run_body d tk st))) = []"
    using Cons.prems by (simp add: Run_body_simps)
  from Cons.IH [OF this] Run_body_requests_skip [OF Cons.prems, of d tk]
  show ?case by (simp add: Run_loop_Cons requests_append del: Run_loop.simps(2))
qed

text \<open>
  The buffer at the head of the loop holds at most \<open>maxBufferSize + 2\<close> DataPoints: an
  iteration that does not flush had fewer than \<open>maxBufferSize\<close> at line 70 and may append
  three more.
\<close>

lemma Run_body_bound:
  assumes "int (length (datapoints st)) \<le> maxBufferSize (handler st) + 2"
    and "0 \<le> maxBufferSize (handler st)"
  shows "int (length (datapoints (fst (Run_body d tk st)))) \<le> maxBufferSize (handler st) + 2"
    and "\<forall>n\<in>set (flush_sizes (snd (Run_body d tk st))). int n \<le> maxBufferSize (handler st) + 6"
  using assms
  by (auto simp: Run_body_simps Run_body_flush_sizes afterReport_simps doEmit_appendDatapoint)

lemma Run_loop_bound:
  assumes "int (length (datapoints st)) \<le> maxBufferSize (handler st) + 2"
    and "0 \<le> maxBufferSize (handler st)"
  shows "int (length (datapoints (fst (Run_loop d st tks)))) \<le> maxBufferSize (handler st) + 2 \<and>
         (\<forall>n\<in>set (flush_sizes (snd (Run_loop d st tks))). int n \<le> maxBufferSize (handler st) + 6)"
  using assms
proof (induction tks arbitrary: st)
  case Nil
  then show ?case by simp
next
  case (Cons tk tks)
  let ?st1 = "fst (Run_body d tk st)"
  have cfg: "maxBufferSize (handler ?st1) = maxBufferSize (handler st)"
    by (simp add: Run_body_simps)
  have b1: "int (length (datapoints ?st1)) \<le> maxBufferSize (handler ?st1) + 2"
    using Run_body_bound(1) [OF Cons.prems] cfg by simp
  have b2: "0 \<le> maxBufferSize (handler ?st1)"
    using Cons.prems cfg by simp
  from Cons.IH [OF b1 b2] Run_body_bound(2) [OF Cons.prems, of d tk] cfg
  show ?case
    by (auto simp: Run_loop_Cons flush_sizes_append simp del: Run_loop.simps(2))
qed

lemma Run_Inr:
  "Run d s start tks = Inr (st, evs) \<longleftrightarrow>
     0 \<le> maxBufferSize s \<and> st = fst (Run_loop d (init_state s start) tks) \<and>
     evs = snd (Run_loop d (init_state s start) tks)"
  by (auto simp: Run_def)

lemma init_state_simps:
  "handler (init_state s start) = s"
  "datapoints (init_state s start) = []"
  "lastEmission (init_state s start) = start"
  "lastHandlerMetricsEmission (init_state s start) = start"
  by (simp_all add: init_state_def)

lemma flushed_batch_bound:
  assumes "Run d s start tks = Inr (st, evs)"
  shows "\<forall>n\<in>set (flush_sizes evs). int n \<le> maxBufferSize s + 6"
proof -
  from assms have mbs: "0 \<le> maxBufferSize s"
    and evs: "evs = snd (Run_loop d (init_state s start) tks)"
    by (simp_all add: Run_Inr)
  show ?thesis
    using Run_loop_bound [of "init_state s start" d tks] mbs evs
    by (simp add: init_state_simps)
qed

text \<open>
  Once the self-report has fired in iteration \<open>i\<close>, its anchor never falls below the
  reading it took there, provided the clock does not run backwards.
\<close>

lemma anchor_after_report:
  assumes "sorted (map now74 tks)" and "i < k" and "k \<le> length tks"
    and "emitHandlerIntervalPassed (fst (Run_loop d st (take i tks))) (tks ! i)"
  shows "now74 (tks ! i) \<le> lastHandlerMetricsEmission (fst (Run_loop d st (take k tks)))"
  using assms(2,3)
proof (induction k)
  case 0
  then show ?case by simp
next
  case (Suc k)
  let ?st = "fst (Run_loop d st (take k tks))"
  from Suc.prems have k: "k < length tks" by simp
  have step: "fst (Run_loop d st (take (Suc k) tks)) = fst (Run_body d (tks ! k) ?st)"
    using k by (simp add: take_Suc_conv_app_nth Run_loop_append Run_loop_Cons del: Run_loop.simps(2))
  show ?case
  proof (cases "i = k")
    case True
    with assms(4) show ?thesis by (simp add: step Run_body_simps)
  next
    case False
    with Suc.prems have ik: "i < k" by simp
    with Suc.IH k have ih: "now74 (tks ! i) \<le> lastHandlerMetricsEmission ?st" by simp
    have "now74 (tks ! i) \<le> now74 (tks ! k)"
      using assms(1) ik k by (simp add: sorted_iff_nth_mono)
    with ih show ?thesis by (simp add: step Run_body_simps)
  qed
qed

text \<open>What an iteration does to the buffer, the counters and the emission times.\<close>

lemma Run_loop_append_snd:
  "snd (Run_loop d st (xs @ ys)) =
     snd (Run_loop d st xs) @ snd (Run_loop d (fst (Run_loop d st xs)) ys)"
  by (induction xs arbitrary: st) (simp_all add: Run_loop_Cons del: Run_loop.simps(2))

lemma reportHandlerMetrics_eq:
  "reportHandlerMetrics d tk st =
     st\<lparr> handler := resetMetricsDropped (resetMetricsSent (resetEmissionTimes (handler st))),
         datapoints := datapoints st @
           [convertToProto d (resetEmissionTimes (handler st))
              (makeEmissionTimeMetric d (handler st)),
            convertToProto d (resetMetricsSent (resetEmissionTimes (handler st)))
              (makeMetricsSentMetric d (resetEmissionTimes (handler st))),
            convertToProto d (resetMetricsDropped (resetMetricsSent (resetEmissionTimes (handler st))))
              (makeMetricsDroppedMetric d (resetMetricsSent (resetEmissionTimes (handler st))))],
         lastHandlerMetricsEmission := now74 tk \<rparr>"
  by (simp add: reportHandlerMetrics_def Let_def)

lemma afterReport_eq:
  "afterReport d tk st =
     (if emitHandlerIntervalPassed st tk then reportHandlerMetrics d tk (appendDatapoint d tk st)
      else appendDatapoint d tk st)"
  by (simp add: afterReport_def Let_def tests_appendDatapoint)

lemma afterReport_counters:
  "metricsSent (handler (afterReport d tk st)) =
     (if emitHandlerIntervalPassed st tk then 0 else metricsSent (handler st))"
  "metricsDropped (handler (afterReport d tk st)) =
     (if emitHandlerIntervalPassed st tk then 0 else metricsDropped (handler st))"
  "emissionTimes (handler (afterReport d tk st)) =
     (if emitHandlerIntervalPassed st tk then [] else emissionTimes (handler st))"
  by (simp_all add: afterReport_eq reportHandlerMetrics_simps appendDatapoint_simps)

lemma Run_body_counters:
  "metricsSent (handler (fst (Run_body d tk st))) =
     (if emitHandlerIntervalPassed st tk then 0 else metricsSent (handler st))"
  "metricsDropped (handler (fst (Run_body d tk st))) =
     (if emitHandlerIntervalPassed st tk then 0 else metricsDropped (handler st))"
  "emissionTimes (handler (fst (Run_body d tk st))) =
     (if emitHandlerIntervalPassed st tk then [] else emissionTimes (handler st)) @
     (if doEmit (appendDatapoint d tk st) tk then [Seconds (now96 tk - now94 tk)] else [])"
  by (simp_all add: Run_body_fst emitAndReset_fst afterReport_counters)

text \<open>
  Every DataPoint of a run is flushed or still in the buffer: one for each metric
  received, and three for each iteration in which the test of line 69 holds.
\<close>

lemma Run_body_count:
  "sum_list (flush_sizes (snd (Run_body d tk st))) + length (datapoints (fst (Run_body d tk st))) =
     length (datapoints st) + (if emitHandlerIntervalPassed st tk then 4 else 1)"
  by (simp add: Run_body_flush_sizes Run_body_simps afterReport_simps)

lemma Run_loop_count:
  "sum_list (flush_sizes (snd (Run_loop d st tks))) + length (datapoints (fst (Run_loop d st tks))) =
     length (datapoints st) + length tks +
     3 * length (filter (\<lambda>i. emitHandlerIntervalPassed (fst (Run_loop d st (take i tks))) (tks ! i))
                   [0..<length tks])"
proof (induction tks rule: rev_induct)
  case Nil
  then show ?case by simp
next
  case (snoc tk tks)
  let ?st = "fst (Run_loop d st tks)"
  define P where "P = (\<lambda>i. emitHandlerIntervalPassed (fst (Run_loop d st (take i tks))) (tks ! i))"
  define Q where "Q = (\<lambda>i. emitHandlerIntervalPassed
                        (fst (Run_loop d st (take i (tks @ [tk])))) ((tks @ [tk]) ! i))"
  have ih: "sum_list (flush_sizes (snd (Run_loop d st tks))) + length (datapoints ?st) =
     length (datapoints st) + length tks + 3 * length (filter P [0..<length tks])"
    using snoc.IH by (simp only: P_def)
  have same: "filter Q [0..<length tks] = filter P [0..<length tks]"
    by (rule filter_cong) (simp_all add: P_def Q_def nth_append)
  have lastQ: "Q (length tks) = emitHandlerIntervalPassed ?st tk"
    by (simp add: Q_def)
  have count: "length (filter Q [0..<length (tks @ [tk])]) =
     length (filter P [0..<length tks]) + (if emitHandlerIntervalPassed ?st tk then 1 else 0)"
    using same lastQ by simp
  have last: "Run_loop d ?st [tk] = (fst (Run_body d tk ?st), snd (Run_body d tk ?st))"
    by (simp add: case_prod_beta)
  have fst_eq: "fst (Run_loop d st (tks @ [tk])) = fst (Run_body d tk ?st)"
    by (simp only: Run_loop_append last fst_conv)
  have snd_eq: "snd (Run_loop d st (tks @ [tk])) = snd (Run_loop d st tks) @ snd (Run_body d tk ?st)"
    by (simp only: Run_loop_append_snd last snd_conv)
  have "sum_list (flush_sizes (snd (Run_loop d st (tks @ [tk])))) +
        length (datapoints (fst (Run_loop d st (tks @ [tk])))) =
     length (datapoints st) + length (tks @ [tk]) + 3 * length (filter Q [0..<length (tks @ [tk])])"
    using ih Run_body_count [of d tk ?st]
    by (simp only: fst_eq snd_eq count flush_sizes_append sum_list_append)
       (simp split: if_splits)
  then show ?case by (simp only: Q_def)
qed

subsection \<open>The flush policy\<close>



subsection \<open>The encoder\<close>

text \<open>
  Claim C2. For every metric, \<open>convertToProto\<close> returns a DataPoint whose name is the
  prefix followed by the metric's name and whose type is GAUGE for a Gauge, COUNTER for a
  Counter and CUMULATIVE_COUNTER for a CumulativeCounter; for any other metric type the
  type field stays unset. The function is total: there is no error result.
\<close>

theorem convertToProto_name_and_type:
  "dp_Metric (convertToProto d s m) = Some (prefix s @ m_Name m) \<and>
   dp_MetricType (convertToProto d s m) =
     (case m_MetricType m of
        Gauge \<Rightarrow> Some MetricType_GAUGE
      | Counter \<Rightarrow> Some MetricType_COUNTER
      | CumulativeCounter \<Rightarrow> Some MetricType_CUMULATIVE_COUNTER
      | OtherType t \<Rightarrow> None)"
  by (simp add: convertToProto_def Let_def)

theorem convertToProto_name_and_type_witness:
  "dp_Metric (convertToProto ex_deps (ex_handler 10 2) ex_metric) = Some ''test.cpu'' \<and>
   dp_MetricType (convertToProto ex_deps (ex_handler 10 2) ex_metric) = Some MetricType_GAUGE \<and>
   dp_MetricType (convertToProto ex_deps (ex_handler 10 2)
     (ex_metric\<lparr>m_MetricType := OtherType ''histogram''\<rparr>)) = None"
  using convertToProto_name_and_type [of ex_deps "ex_handler 10 2" ex_metric]
    convertToProto_name_and_type [of ex_deps "ex_handler 10 2"
      "ex_metric\<lparr>m_MetricType := OtherType ''histogram''\<rparr>"]
  by (simp add: ex_handler_def ex_metric_def)

subsection \<open>The transport\<close>

text \<open>
  Claim C3. \<open>emitMetrics\<close> should treat exactly a response with HTTP status 200 as a
  success. The test of line 191 compares the whole status line with \<open>200 OK\<close>, so a
  response with status code 200 and another reason phrase, here the empty one, is logged
  as a failed post, with its status and body, and no success is logged.
\<close>

theorem emitMetrics_200_without_OK:
  "error_logs (snd (emitMetrics ex_deps (answer ''200 '' 200 ''accepted'') (ex_handler 10 2)
      [ex_datapoint])) =
     [Failed_to_post ''https://ingest.signalfx.com/v2/datapoint'' ''200 '' ''accepted''
        [ex_datapoint]] \<and>
   Log Info (Successfully_sent 1) \<notin> set (snd (emitMetrics ex_deps
      (answer ''200 '' 200 ''accepted'') (ex_handler 10 2) [ex_datapoint]))"
  by (simp add: emitMetrics_def answer_def ex_deps_def ex_handler_def Header_Set_def Let_def)

text \<open>
  Claim C4. On a successful send the sent counter should grow by the number of
  DataPoints of the batch. The handler reports the counter and resets it (lines 82 to
  84), and no line increments it: \<open>emitMetrics\<close> only logs the number sent. Two metrics
  fill a buffer of size 2 within the first interval; the batch of 2 is posted and
  answered with \<open>200 OK\<close>, the success is logged, and the counter is still 0.
\<close>

theorem successful_send_leaves_sent_counter:
  "metricsSent (ex_handler 10 2) = 0 \<and>
   flush_sizes (snd (projr (Run ex_deps (ex_handler 10 2) 0
      [ex_tick 1000000000 0, ex_tick 2000000000 0]))) = [2] \<and>
   Log Info (Successfully_sent 2) \<in> set (snd (projr (Run ex_deps (ex_handler 10 2) 0
      [ex_tick 1000000000 0, ex_tick 2000000000 0]))) \<and>
   metricsSent (handler (fst (projr (Run ex_deps (ex_handler 10 2) 0
      [ex_tick 1000000000 0, ex_tick 2000000000 0])))) = 0"
  by (simp add: ex_defs run_defs)

text \<open>
  Claim C5. \<open>emitMetrics\<close> issues no HTTP request and logs no error when the batch is
  empty, and also when the auth token or the endpoint is the empty string; it leaves the
  handler as it was. With the token or the endpoint missing, a whole run of the loop
  issues no request, whatever the batches.
\<close>

theorem emitMetrics_skips:
  "(dps = [] \<or> authToken s = [] \<or> endpoint s = [] \<longrightarrow>
      requests (snd (emitMetrics d do s dps)) = [] \<and>
      error_logs (snd (emitMetrics d do s dps)) = [] \<and>
      fst (emitMetrics d do s dps) = s) \<and>
   ((authToken s = [] \<or> endpoint s = []) \<and> Run d s start tks = Inr (st, evs) \<longrightarrow>
      requests evs = [])"
  using emitMetrics_requests_skip [of dps s d do] emitMetrics_fst [of d do s dps]
    Run_loop_requests_skip [of "init_state s start" d tks]
  by (auto simp: Run_Inr init_state_simps)

theorem emitMetrics_skips_witness:
  "authToken ((ex_handler 10 2)\<lparr>authToken := []\<rparr>) = [] \<and>
   requests (snd (emitMetrics ex_deps (answer ''200 OK'' 200 ''OK'')
     ((ex_handler 10 2)\<lparr>authToken := []\<rparr>) [ex_datapoint])) = [] \<and>
   error_logs (snd (emitMetrics ex_deps (answer ''200 OK'' 200 ''OK'')
     ((ex_handler 10 2)\<lparr>authToken := []\<rparr>) [ex_datapoint])) = [] \<and>
   requests (snd (projr (Run ex_deps ((ex_handler 10 2)\<lparr>authToken := []\<rparr>) 0 ex_ticks))) = []"
  using emitMetrics_skips [where dps = "[ex_datapoint]"
      and s = "(ex_handler 10 2)\<lparr>authToken := []\<rparr>" and d = ex_deps
      and ?do = "answer ''200 OK'' 200 ''OK''" and start = 0 and tks = ex_ticks
      and st = "fst (projr (Run ex_deps ((ex_handler 10 2)\<lparr>authToken := []\<rparr>) 0 ex_ticks))"
      and evs = "snd (projr (Run ex_deps ((ex_handler 10 2)\<lparr>authToken := []\<rparr>) 0 ex_ticks))"]
  by (simp add: Run_def ex_handler_def)

subsection \<open>The size of the buffer\<close>

text \<open>
  Claim C6. The spec bounds the batch by \<open>maxBufferSize\<close> when the flush decision is
  taken. An iteration that does not flush may append the three self-report DataPoints
  after its decision, so the bound that holds in every state a run reaches is
  \<open>maxBufferSize + 3\<close>, for the buffer after the append of line 66.
\<close>

theorem buffer_at_decision_bound:
  assumes "Run d s start pre = Inr (st, evs)"
  shows "int (length (datapoints (appendDatapoint d tk st))) \<le> maxBufferSize s + 3"
proof -
  from assms have mbs: "0 \<le> maxBufferSize s"
    and st: "st = fst (Run_loop d (init_state s start) pre)"
    by (simp_all add: Run_Inr)
  have "int (length (datapoints st)) \<le> maxBufferSize s + 2"
    using Run_loop_bound [of "init_state s start" d pre] mbs st
    by (simp add: init_state_simps)
  then show ?thesis by (simp add: appendDatapoint_simps)
qed

theorem buffer_at_decision_bound_witness:
  "\<not> isl (Run ex_deps (ex_handler 10 2) 0 (take 2 ex_ticks)) \<and>
   int (length (datapoints (appendDatapoint ex_deps (ex_ticks ! 2)
     (fst (projr (Run ex_deps (ex_handler 10 2) 0 (take 2 ex_ticks)))))))
     \<le> maxBufferSize (ex_handler 10 2) + 3"
  using buffer_at_decision_bound [where d = ex_deps and s = "ex_handler 10 2" and start = 0
      and pre = "take 2 ex_ticks" and tk = "ex_ticks ! 2"
      and st = "fst (projr (Run ex_deps (ex_handler 10 2) 0 (take 2 ex_ticks)))"
      and evs = "snd (projr (Run ex_deps (ex_handler 10 2) 0 (take 2 ex_ticks)))"]
  by (simp add: Run_def ex_handler_def)

text \<open>
  In the run \<open>ex_ticks\<close> the second iteration reports without flushing and leaves 4
  DataPoints; the third iteration decides on 5, with \<open>maxBufferSize\<close> 2.
\<close>

theorem buffer_at_decision_counterexample:
  "maxBufferSize (ex_handler 10 2) = 2 \<and>
   length (datapoints (appendDatapoint ex_deps (ex_ticks ! 2)
     (fst (projr (Run ex_deps (ex_handler 10 2) 0 (take 2 ex_ticks)))))) = 5"
  by (simp add: ex_defs run_defs)

subsection \<open>The self-report\<close>

text \<open>
  Claim C7. The self-report has its own anchor, \<open>lastHandlerMetricsEmission\<close>, set to the
  clock reading of line 74 when the report fires and left alone otherwise. With a clock
  that does not run backwards (the readings of line 74 never decrease along the run; an
  iteration that does not report leaves its reading unused), any two iterations of a run
  in which the test of line 69 holds are at least one interval apart: from the reading
  the earlier one stored to the reading the later one tested.

  An iteration reports exactly when that test holds. Its state at line 91 is the state
  after the append with the report block applied if the test holds, and untouched if
  not; the batch it flushes and the buffer it leaves are taken from that state. The
  block appends three DataPoints: the emission-time metric, the sent metric and the
  dropped metric, each made before its reset and in this order, and right after the
  block both counters are 0 and the list of emission times is empty. Over the iteration,
  the counters are 0 if the test holds and unchanged if not, and the list of emission
  times is emptied if the test holds, before the flush of the same iteration, if there
  is one, appends its duration. In a whole run the DataPoints flushed and those left in
  the buffer are one for each metric received and three for each iteration in which the
  test holds.
\<close>

theorem self_report_once_per_interval:
  "(sorted (map now74 tks) \<and> i < j \<and> j < length tks \<and>
    emitHandlerIntervalPassed (fst (Run_loop d st (take i tks))) (tks ! i) \<and>
    emitHandlerIntervalPassed (fst (Run_loop d st (take j tks))) (tks ! j) \<longrightarrow>
      real_of_int (interval (handler st)) \<le> Seconds (now69 (tks ! j) - now74 (tks ! i))) \<and>
   lastHandlerMetricsEmission (fst (Run_body d tk st)) =
     (if emitHandlerIntervalPassed st tk then now74 tk else lastHandlerMetricsEmission st) \<and>
   afterReport d tk st =
     (if emitHandlerIntervalPassed st tk then reportHandlerMetrics d tk (appendDatapoint d tk st)
      else appendDatapoint d tk st) \<and>
   Run_body d tk st =
     (if doEmit (appendDatapoint d tk st) tk
      then (fst (emitAndReset d tk (afterReport d tk st)),
            Log Debug (SignalFx_datapoint (convertToProto d (handler st) (incomingMetric tk)))
              # snd (emitAndReset d tk (afterReport d tk st)))
      else (afterReport d tk st,
            [Log Debug (SignalFx_datapoint (convertToProto d (handler st) (incomingMetric tk)))])) \<and>
   reportHandlerMetrics d tk st =
     st\<lparr> handler := resetMetricsDropped (resetMetricsSent (resetEmissionTimes (handler st))),
         datapoints := datapoints st @
           [convertToProto d (resetEmissionTimes (handler st))
              (makeEmissionTimeMetric d (handler st)),
            convertToProto d (resetMetricsSent (resetEmissionTimes (handler st)))
              (makeMetricsSentMetric d (resetEmissionTimes (handler st))),
            convertToProto d (resetMetricsDropped (resetMetricsSent (resetEmissionTimes (handler st))))
              (makeMetricsDroppedMetric d (resetMetricsSent (resetEmissionTimes (handler st))))],
         lastHandlerMetricsEmission := now74 tk \<rparr> \<and>
   metricsSent (handler (reportHandlerMetrics d tk st)) = 0 \<and>
   metricsDropped (handler (reportHandlerMetrics d tk st)) = 0 \<and>
   emissionTimes (handler (reportHandlerMetrics d tk st)) = [] \<and>
   metricsSent (handler (fst (Run_body d tk st))) =
     (if emitHandlerIntervalPassed st tk then 0 else metricsSent (handler st)) \<and>
   metricsDropped (handler (fst (Run_body d tk st))) =
     (if emitHandlerIntervalPassed st tk then 0 else metricsDropped (handler st)) \<and>
   emissionTimes (handler (fst (Run_body d tk st))) =
     (if emitHandlerIntervalPassed st tk then [] else emissionTimes (handler st)) @
     (if doEmit (appendDatapoint d tk st) tk then [Seconds (now96 tk - now94 tk)] else []) \<and>
   sum_list (flush_sizes (snd (Run_loop d st tks))) + length (datapoints (fst (Run_loop d st tks))) =
     length (datapoints st) + length tks +
     3 * length (filter (\<lambda>i. emitHandlerIntervalPassed (fst (Run_loop d st (take i tks))) (tks ! i))
                   [0..<length tks])"
proof -
  have spacing: "real_of_int (interval (handler st)) \<le> Seconds (now69 (tks ! j) - now74 (tks ! i))"
    if mono: "sorted (map now74 tks)" and ij: "i < j" and j: "j < length tks"
      and fi: "emitHandlerIntervalPassed (fst (Run_loop d st (take i tks))) (tks ! i)"
      and fj: "emitHandlerIntervalPassed (fst (Run_loop d st (take j tks))) (tks ! j)"
  proof -
    let ?stj = "fst (Run_loop d st (take j tks))"
    have "now74 (tks ! i) \<le> lastHandlerMetricsEmission ?stj"
      using anchor_after_report [OF mono ij _ fi] j by simp
    then have "Seconds (now69 (tks ! j) - lastHandlerMetricsEmission ?stj)
                 \<le> Seconds (now69 (tks ! j) - now74 (tks ! i))"
      by (intro Seconds_mono) simp
    moreover have "real_of_int (interval (handler st))
                 \<le> Seconds (now69 (tks ! j) - lastHandlerMetricsEmission ?stj)"
      using fj by (simp add: emitHandlerIntervalPassed_def Run_loop_simps)
    ultimately show ?thesis by linarith
  qed
  show ?thesis
    apply (intro conjI)
    subgoal using spacing by blast
    subgoal by (rule Run_body_simps(5))
    subgoal by (rule afterReport_eq)
    subgoal by (rule Run_body_eq)
    subgoal by (rule reportHandlerMetrics_eq)
    subgoal by (rule reportHandlerMetrics_simps(9))
    subgoal by (rule reportHandlerMetrics_simps(10))
    subgoal by (rule reportHandlerMetrics_simps(8))
    subgoal by (rule Run_body_counters(1))
    subgoal by (rule Run_body_counters(2))
    subgoal by (rule Run_body_counters(3))
    subgoal by (rule Run_loop_count)
    done
qed

text \<open>
  The first two iterations of \<open>ex_ticks\<close> both report, at 10 s and at 20.2 s; the third
  reports too, and the run flushes 4 and 8 DataPoints: 3 metrics and 3 reports of 3.
\<close>

theorem self_report_once_per_interval_witness:
  "sorted (map now74 ex_ticks) \<and>
   emitHandlerIntervalPassed
     (fst (Run_loop ex_deps (init_state (ex_handler 10 2) 0) (take 0 ex_ticks))) (ex_ticks ! 0) \<and>
   emitHandlerIntervalPassed
     (fst (Run_loop ex_deps (init_state (ex_handler 10 2) 0) (take 1 ex_ticks))) (ex_ticks ! 1) \<and>
   real_of_int (interval (handler (init_state (ex_handler 10 2) 0)))
     \<le> Seconds (now69 (ex_ticks ! 1) - now74 (ex_ticks ! 0))"
proof -
  have hyps: "sorted (map now74 ex_ticks) \<and> (0::nat) < 1 \<and> 1 < length ex_ticks \<and>
    emitHandlerIntervalPassed
      (fst (Run_loop ex_deps (init_state (ex_handler 10 2) 0) (take 0 ex_ticks))) (ex_ticks ! 0) \<and>
    emitHandlerIntervalPassed
      (fst (Run_loop ex_deps (init_state (ex_handler 10 2) 0) (take 1 ex_ticks))) (ex_ticks ! 1)"
    by (simp add: ex_defs run_defs)
  with self_report_once_per_interval [where tks = ex_ticks and i = 0 and j = 1
      and d = ex_deps and st = "init_state (ex_handler 10 2) 0", THEN conjunct1]
  show ?thesis by blast
qed

subsection \<open>A single metric\<close>

text \<open>
  Claim C8. The spec expects, with \<open>maxBufferSize\<close> 100 and an interval of 1 s, that one
  metric followed by a wait of more than an interval yields one flush of exactly 1
  DataPoint. The loop decides to flush only when it receives a metric, so time alone
  flushes nothing; and the two anchors start equal, so when the first metric flushes by
  interval the self-report fires in the same iteration. For a run that receives a single
  metric, with line 69 reading the clock no earlier than line 68: if the metric is
  received an interval or more after the start there is one flush, of 4 DataPoints;
  otherwise there is none.
\<close>

theorem single_metric_flush:
  assumes "maxBufferSize s = 100" and "interval s = 1" and "now68 tk \<le> now69 tk"
    and "Run d s start [tk] = Inr (st, evs)"
  shows "flush_sizes evs = (if 1 \<le> Seconds (now68 tk - start) then [4] else [])"
proof -
  let ?st0 = "init_state s start"
  from assms(4) have evs: "evs = snd (Run_body d tk ?st0)"
    by (simp add: Run_Inr case_prod_beta)
  have emit: "doEmit (appendDatapoint d tk ?st0) tk \<longleftrightarrow> 1 \<le> Seconds (now68 tk - start)"
    using assms(1,2) by (simp add: doEmit_appendDatapoint init_state_simps)
  have "Seconds (now68 tk - start) \<le> Seconds (now69 tk - start)"
    using assms(3) by (intro Seconds_mono) simp
  then have report: "1 \<le> Seconds (now68 tk - start) \<Longrightarrow> emitHandlerIntervalPassed ?st0 tk"
    using assms(2) by (simp add: emitHandlerIntervalPassed_def init_state_simps)
  show ?thesis
    using emit report
    by (simp add: evs Run_body_flush_sizes afterReport_simps init_state_simps)
qed

theorem single_metric_flush_witness:
  "maxBufferSize (ex_handler 1 100) = 100 \<and> interval (ex_handler 1 100) = 1 \<and>
   now68 (ex_tick 2500000000 0) \<le> now69 (ex_tick 2500000000 0) \<and>
   \<not> isl (Run ex_deps (ex_handler 1 100) 0 [ex_tick 2500000000 0]) \<and>
   flush_sizes (snd (projr (Run ex_deps (ex_handler 1 100) 0 [ex_tick 2500000000 0]))) = [4]"
  using single_metric_flush [where s = "ex_handler 1 100" and tk = "ex_tick 2500000000 0"
      and d = ex_deps and start = 0
      and st = "fst (projr (Run ex_deps (ex_handler 1 100) 0 [ex_tick 2500000000 0]))"
      and evs = "snd (projr (Run ex_deps (ex_handler 1 100) 0 [ex_tick 2500000000 0]))"]
  by (simp add: Run_def ex_handler_def ex_tick_def Seconds_def)

text \<open>
  The metric is received at once and nothing is flushed, however long the wait that
  follows; or it is received after 1.1 s and the flush carries 4 DataPoints.
\<close>

theorem single_metric_counterexample:
  "flush_sizes (snd (projr (Run ex_deps (ex_handler 1 100) 0 [ex_tick 0 0]))) = [] \<and>
   flush_sizes (snd (projr (Run ex_deps (ex_handler 1 100) 0 [ex_tick 1100000000 0]))) = [4]"
  by (simp add: ex_defs run_defs)

subsection \<open>Self-report DataPoints and the size trigger\<close>

text \<open>
  Claim C9. The size test of line 70 sees the buffer before the self-report appends to
  it: an iteration whose interval has not passed and whose buffer, after the append of
  line 66, is below \<open>maxBufferSize\<close> does not flush, also when the three self-report
  DataPoints take the buffer to \<open>maxBufferSize\<close> or beyond. The batch handed to
  \<open>emitMetrics\<close> is bounded, but by \<open>maxBufferSize + 6\<close>: up to \<open>maxBufferSize + 3\<close> at
  the decision, and three more when the report fires again in the flushing iteration.
\<close>

theorem report_does_not_flush:
  "(\<not> emitIntervalPassed st tk \<and> int (length (datapoints st)) + 1 < maxBufferSize (handler st) \<longrightarrow>
      flush_sizes (snd (Run_body d tk st)) = [] \<and>
      length (datapoints (fst (Run_body d tk st))) =
        length (datapoints st) + (if emitHandlerIntervalPassed st tk then 4 else 1)) \<and>
   (Run d s start tks = Inr (st', evs) \<longrightarrow>
      (\<forall>n\<in>set (flush_sizes evs). int n \<le> maxBufferSize s + 6))"
  using flushed_batch_bound [of d s start tks st' evs]
  by (auto simp: Run_body_flush_sizes Run_body_simps doEmit_appendDatapoint emitIntervalPassed_def)

text \<open>
  The second iteration of \<open>ex_ticks\<close>: one DataPoint at the decision, four after the
  report, with \<open>maxBufferSize\<close> 2 and no flush.
\<close>

theorem report_does_not_flush_witness:
  "\<not> emitIntervalPassed (fst (Run_loop ex_deps (init_state (ex_handler 10 2) 0) (take 1 ex_ticks)))
       (ex_ticks ! 1) \<and>
   flush_sizes (snd (Run_body ex_deps (ex_ticks ! 1)
     (fst (Run_loop ex_deps (init_state (ex_handler 10 2) 0) (take 1 ex_ticks))))) = [] \<and>
   length (datapoints (fst (Run_body ex_deps (ex_ticks ! 1)
     (fst (Run_loop ex_deps (init_state (ex_handler 10 2) 0) (take 1 ex_ticks)))))) = 4 \<and>
   \<not> isl (Run ex_deps (ex_handler 10 2) 0 ex_ticks) \<and>
   int (last (flush_sizes (snd (projr (Run ex_deps (ex_handler 10 2) 0 ex_ticks)))))
     \<le> maxBufferSize (ex_handler 10 2) + 6"
  using report_does_not_flush [where d = ex_deps and tk = "ex_ticks ! 1"
      and st = "fst (Run_loop ex_deps (init_state (ex_handler 10 2) 0) (take 1 ex_ticks))"
      and s = "ex_handler 10 2" and start = 0 and tks = ex_ticks
      and st' = "fst (projr (Run ex_deps (ex_handler 10 2) 0 ex_ticks))"
      and evs = "snd (projr (Run ex_deps (ex_handler 10 2) 0 ex_ticks))"]
  by (simp add: ex_defs run_defs)

text \<open>
  The run \<open>ex_ticks\<close> flushes a batch of 8 DataPoints with \<open>maxBufferSize\<close> 2: more than
  \<open>maxBufferSize + 3\<close>.
\<close>

theorem flushed_batch_counterexample:
  "maxBufferSize (ex_handler 10 2) + 3 = 5 \<and>
   flush_sizes (snd (projr (Run ex_deps (ex_handler 10 2) 0 ex_ticks))) = [4, 8]"
  by (simp add: ex_defs run_defs)

subsection \<open>What emitMetrics leaves alone\<close>

text \<open>
  Claim C10. On every path \<open>emitMetrics\<close> returns the handler as it received it: the
  counters and the list of emission times are those of the caller. (The batch is a value
  of the model; the source assigns neither to the slice nor to its elements.) It is
  \<open>Run\<close> that, on every flush and whatever \<open>emitMetrics\<close> did, appends the duration
  between the readings of lines 94 and 96 to \<open>emissionTimes\<close>, empties the buffer and sets
  \<open>lastEmission\<close> to the reading of line 96.
\<close>

theorem emitMetrics_frame:
  "fst (emitMetrics d do s dps) = s \<and>
   fst (emitAndReset d tk st) =
     st\<lparr> handler := (handler st)\<lparr> emissionTimes :=
                        emissionTimes (handler st) @ [Seconds (now96 tk - now94 tk)] \<rparr>,
         datapoints := [], lastEmission := now96 tk \<rparr> \<and>
   fst (Run_body d tk st) =
     (if doEmit (appendDatapoint d tk st) tk
      then (afterReport d tk st)
             \<lparr> handler := (handler (afterReport d tk st))\<lparr> emissionTimes :=
                  emissionTimes (handler (afterReport d tk st)) @ [Seconds (now96 tk - now94 tk)] \<rparr>,
               datapoints := [], lastEmission := now96 tk \<rparr>
      else afterReport d tk st)"
  by (simp add: emitMetrics_fst emitAndReset_fst Run_body_fst)

text \<open>A refused connection: the duration of 0.5 s is recorded and the buffer is emptied.\<close>

theorem emitMetrics_frame_witness:
  "fst (emitMetrics ex_deps refuse (ex_handler 10 2) [ex_datapoint]) = ex_handler 10 2 \<and>
   emissionTimes (handler (fst (emitAndReset ex_deps
     ((ex_tick 10000000000 500000000)\<lparr>client_Do := refuse\<rparr>)
     ((init_state (ex_handler 10 2) 0)\<lparr>datapoints := [ex_datapoint]\<rparr>)))) = [1 / 2] \<and>
   datapoints (fst (emitAndReset ex_deps
     ((ex_tick 10000000000 500000000)\<lparr>client_Do := refuse\<rparr>)
     ((init_state (ex_handler 10 2) 0)\<lparr>datapoints := [ex_datapoint]\<rparr>))) = [] \<and>
   lastEmission (fst (emitAndReset ex_deps
     ((ex_tick 10000000000 500000000)\<lparr>client_Do := refuse\<rparr>)
     ((init_state (ex_handler 10 2) 0)\<lparr>datapoints := [ex_datapoint]\<rparr>))) = 10500000000"
  using emitMetrics_frame [of ex_deps refuse "ex_handler 10 2" "[ex_datapoint]"
      "(ex_tick 10000000000 500000000)\<lparr>client_Do := refuse\<rparr>"
      "(init_state (ex_handler 10 2) 0)\<lparr>datapoints := [ex_datapoint]\<rparr>"]
  by (simp add: init_state_def ex_handler_def ex_tick_def Seconds_def)

end
